theory Spec2Isabelle
  imports Main
begin

section \<open>TerraTraceAI command centre: the detection poller of \<open>src/app/page.tsx\<close>\<close>

text \<open>
  The page component keeps seven \<open>useState\<close> cells and one \<open>useRef\<close> cell, and changes
  them from five callbacks: \<open>loadVideo\<close>, \<open>handleDetect\<close>, \<open>triggerMockAlert\<close>,
  \<open>resetStatus\<close> and the polling \<open>useEffect\<close>. Each callback is embedded below as a
  function on a record of those cells. What the callbacks receive from outside (the
  outcome of \<open>fetch\<close>, the three environment constants) is an argument of the function.

  JavaScript strings are modelled as \<open>string\<close>: one \<open>char\<close> is one UTF-16 code unit in
  the range U+0000 to U+00FF. Code units above U+00FF are outside the model; of the
  characters the source treats specially only the line terminators U+2028, U+2029 and the
  white space above U+00A0 lie there.
\<close>

subsection \<open>Character classes of the regular expression and of \<open>trim\<close>\<close>

definition lineTerminator :: "char \<Rightarrow> bool" where
  \<comment> \<open>the characters that \<open>.\<close> does not match: LF and CR\<close>
  "lineTerminator c = (c = CHR 0x0A \<or> c = CHR 0x0D)"

definition wordChar :: "char \<Rightarrow> bool" where
  \<comment> \<open>\<open>\w\<close> is \<open>[A-Za-z0-9_]\<close>\<close>
  "wordChar c = (c \<in> set ''ABCDEFGHIJKLMNOPQRSTUVWXYZabcdefghijklmnopqrstuvwxyz0123456789_'')"

definition whiteSpace :: "char \<Rightarrow> bool" where
  \<comment> \<open>what \<open>String.prototype.trim\<close> strips: TAB, LF, VT, FF, CR, SP, NBSP\<close>
  "whiteSpace c = (c \<in> {CHR 0x09, CHR 0x0A, CHR 0x0B, CHR 0x0C, CHR 0x0D, CHR '' '', CHR 0xA0})"

definition trim :: "string \<Rightarrow> string" where
  "trim s = rev (dropWhile whiteSpace (rev (dropWhile whiteSpace s)))"

subsection \<open>The regular expression of \<open>getYoutubeVideoId\<close>\<close>

text \<open>
  \<^verbatim>\<open>/^.*(youtu.be\/|v\/|u\/\w\/|embed\/|watch\?v=|&v=)([^#&?]*).*/\<close>

  Group 1 is an alternation of six sequences of one-character atoms. Group 2 and the
  trailing \<open>.*\<close> match the empty string and the expression has no end anchor, so once
  group 1 has matched the whole expression matches: the only backtracking is that of the
  leading greedy \<open>.*\<close>, which gives characters back one at a time.
\<close>

datatype atom = Lit char | Dot | Word

fun atomMatches :: "atom \<Rightarrow> char \<Rightarrow> bool" where
  "atomMatches (Lit a) c = (c = a)"
| "atomMatches Dot c = (\<not> lineTerminator c)"
| "atomMatches Word c = wordChar c"

fun matchAtoms :: "atom list \<Rightarrow> string \<Rightarrow> string option" where
  \<comment> \<open>the input left after the sequence, when the sequence matches at its head\<close>
  "matchAtoms [] s = Some s"
| "matchAtoms (a # as) [] = None"
| "matchAtoms (a # as) (c # s) = (if atomMatches a c then matchAtoms as s else None)"

definition alternatives :: "atom list list" where
  "alternatives =
     [ map Lit ''youtu'' @ [Dot] @ map Lit ''be/'',
       map Lit ''v/'',
       map Lit ''u/'' @ [Word] @ map Lit ''/'',
       map Lit ''embed/'',
       map Lit ''watch?v='',
       map Lit ''&v='' ]"

fun firstAlternative :: "atom list list \<Rightarrow> string \<Rightarrow> string option" where
  \<comment> \<open>the alternatives are tried from left to right\<close>
  "firstAlternative [] s = None"
| "firstAlternative (alt # alts) s =
     (case matchAtoms alt s of Some r \<Rightarrow> Some r | None \<Rightarrow> firstAlternative alts s)"

definition group1 :: "string \<Rightarrow> string option" where
  "group1 s = firstAlternative alternatives s"

definition group2 :: "string \<Rightarrow> string" where
  \<comment> \<open>\<open>([^#&?]*)\<close>, greedy\<close>
  "group2 s = takeWhile (\<lambda>c. c \<notin> {CHR ''#'', CHR ''&'', CHR ''?''}) s"

fun backtrack :: "string \<Rightarrow> nat \<Rightarrow> string option" where
  \<comment> \<open>the leading \<open>.*\<close> holding \<open>n\<close> characters, then \<open>n - 1\<close>, ..., then none;
      the result is \<open>match[2]\<close>\<close>
  "backtrack url 0 = map_option group2 (group1 url)"
| "backtrack url (Suc n) =
     (case group1 (drop (Suc n) url) of
        Some r \<Rightarrow> Some (group2 r)
      | None \<Rightarrow> backtrack url n)"

definition firstLine :: "string \<Rightarrow> nat" where
  \<comment> \<open>how many characters the leading \<open>.*\<close> can take: those before the first line
      terminator\<close>
  "firstLine url = length (takeWhile (\<lambda>c. \<not> lineTerminator c) url)"

definition regExpMatch :: "string \<Rightarrow> string option" where
  \<comment> \<open>\<open>url.match(regExp)\<close>, reduced to its element 2\<close>
  "regExpMatch url = backtrack url (firstLine url)"

definition getYoutubeVideoId :: "string \<Rightarrow> string option" where
  "getYoutubeVideoId url =
     (if url = [] then None
      else case regExpMatch url of
             None \<Rightarrow> None
           | Some m2 \<Rightarrow> if length m2 = 11 then Some m2 else None)"

subsection \<open>JavaScript values received from the detection service\<close>

text \<open>
  \<open>response.json()\<close> resolves to an arbitrary JSON value; the TypeScript type
  \<open>DetectResult\<close> is not checked at run time. A number is kept as the two things
  \<open>handleDetect\<close> can observe of it: its \<open>ToBoolean\<close> and its \<open>ToString\<close>. An object
  is the list of its own properties as parsed (keys distinct). \<open>undefined\<close>, the value of
  a property that is not there, is \<open>None\<close> of \<open>json option\<close>.
\<close>

datatype json =
    JNull
  | JBool bool
  | JNum bool string
  | JStr string
  | JArr "json list"
  | JObj "(string \<times> json) list"

datatype exn =
    Error string      \<comment> \<open>an \<open>instanceof Error\<close> value and its \<open>message\<close>\<close>
  | NotAnError        \<comment> \<open>any other thrown value\<close>

definition nullReadMessage :: "string \<Rightarrow> string" where
  \<comment> \<open>the text of the engine's TypeError (V8's wording)\<close>
  "nullReadMessage p = ''Cannot read properties of null (reading '' @ [CHR 0x27] @ p @ [CHR 0x27] @ '')''"

definition notPrimitiveMessage :: string where
  "notPrimitiveMessage = ''Cannot convert object to primitive value''"

fun member :: "json \<Rightarrow> string \<Rightarrow> json option" where
  \<comment> \<open>\<open>v.p\<close> for \<open>v\<close> not null and \<open>p\<close> one of \<open>triggered\<close>, \<open>error\<close>, \<open>message\<close>,
      which no prototype defines\<close>
  "member (JObj kvs) p = map_of kvs p"
| "member v p = None"

definition getProperty :: "json \<Rightarrow> string \<Rightarrow> exn + json option" where
  "getProperty v p = (if v = JNull then Inl (Error (nullReadMessage p)) else Inr (member v p))"

definition optionalMessage :: "json option \<Rightarrow> json option" where
  \<comment> \<open>\<open>e?.message\<close>\<close>
  "optionalMessage e =
     (case e of None \<Rightarrow> None | Some v \<Rightarrow> if v = JNull then None else member v ''message'')"

fun ToBoolean :: "json option \<Rightarrow> bool" where
  "ToBoolean None = False"
| "ToBoolean (Some JNull) = False"
| "ToBoolean (Some (JBool b)) = b"
| "ToBoolean (Some (JNum nonzero text)) = nonzero"
| "ToBoolean (Some (JStr s)) = (s \<noteq> [])"
| "ToBoolean (Some (JArr xs)) = True"
| "ToBoolean (Some (JObj kvs)) = True"

fun ToString :: "json \<Rightarrow> exn + string"
  and join :: "json list \<Rightarrow> exn + string" where
  "ToString JNull = Inr ''null''"
| "ToString (JBool b) = Inr (if b then ''true'' else ''false'')"
| "ToString (JNum nonzero text) = Inr text"
| "ToString (JStr s) = Inr s"
| "ToString (JArr xs) = join xs"
| "ToString (JObj kvs) =
     (if ''toString'' \<in> fst ` set kvs then Inl (Error notPrimitiveMessage)
      else Inr ''[object Object]'')"
| "join [] = Inr []"
| "join (x # xs) =
     (case (if x = JNull then Inr [] else ToString x) of
        Inl e \<Rightarrow> Inl e
      | Inr a \<Rightarrow>
          if xs = [] then Inr a
          else (case join xs of Inl e \<Rightarrow> Inl e | Inr b \<Rightarrow> Inr (a @ '','' @ b)))"

subsection \<open>The state cells and the configuration\<close>

datatype status = Running | Warning | Alert

record state =
  aiStatus :: status
  activeAlerts :: int
  youtubeUrl :: string
  videoId :: "string option"
  errorTip :: string
  detectResult :: json
  detectLoading :: bool

text \<open>
  \<open>activeAlerts\<close> is a JavaScript number that only ever holds 0, 1, 2, ...; it is an
  \<open>int\<close> here, which is exact below \<open>2 ^ 53\<close>. \<open>detectResult\<close> holds \<open>JNull\<close> for
  \<open>null\<close>.
\<close>

definition errorShown :: "state \<Rightarrow> bool" where
  \<comment> \<open>the page renders the message only under \<open>errorTip && ...\<close>\<close>
  "errorShown s = (errorTip s \<noteq> [])"

definition initialState :: state where
  "initialState =
     \<lparr> aiStatus = Running, activeAlerts = 0, youtubeUrl = [], videoId = None,
       errorTip = [], detectResult = JNull, detectLoading = False \<rparr>"

record config =
  TRIO_API_URL :: string
  TRIO_API_KEY :: string
  DETECT_PROMPT :: string

record request =
  url :: string
  httpMethod :: string
  authorization :: string
  contentType :: string
  stream_url :: string
  condition :: string

subsection \<open>\<open>loadVideo\<close>, \<open>triggerMockAlert\<close>, \<open>resetStatus\<close>\<close>

definition truthy :: "string option \<Rightarrow> bool" where
  \<comment> \<open>a \<open>string | null\<close> used as a condition\<close>
  "truthy v = (case v of None \<Rightarrow> False | Some x \<Rightarrow> x \<noteq> [])"

definition loadVideo :: "state \<Rightarrow> state" where
  "loadVideo s =
     (let s1 = s\<lparr>errorTip := []\<rparr>;
          s2 = s1\<lparr>detectResult := JNull\<rparr>;
          targetVideoId = getYoutubeVideoId (trim (youtubeUrl s))
      in if \<not> truthy targetVideoId then
           s2\<lparr>errorTip := ''Invalid link, please enter a valid YouTube video URL'',
              videoId := None\<rparr>
         else s2\<lparr>videoId := targetVideoId\<rparr>)"

definition triggerMockAlert :: "state \<Rightarrow> state" where
  "triggerMockAlert s = s\<lparr>aiStatus := Alert, activeAlerts := 1\<rparr>"

definition resetStatus :: "state \<Rightarrow> state" where
  "resetStatus s = s\<lparr>aiStatus := Running, activeAlerts := 0, detectResult := JNull\<rparr>"

subsection \<open>\<open>handleDetect\<close>\<close>

text \<open>
  \<open>handleDetect\<close> is asynchronous. Its part up to the call of \<open>fetch\<close> runs at once: it
  returns the new cells and the request it has issued, if any. The part after
  \<open>await fetch(...)\<close> runs when the call settles, on the cells as they are then (the
  setters do not read the cells of the render that started the call; the counter is
  updated with \<open>prev => prev + 1\<close>).
\<close>

definition handleDetect :: "config \<Rightarrow> state \<Rightarrow> state \<times> request option" where
  "handleDetect cfg s =
     (let trimedUrl = trim (youtubeUrl s)
      in if trimedUrl = [] \<or> \<not> truthy (getYoutubeVideoId trimedUrl) then
           (s\<lparr>errorTip := ''Please load a valid YouTube video before running detection''\<rparr>,
            None)
         else if TRIO_API_URL cfg = [] \<or> TRIO_API_KEY cfg = [] then
           (s\<lparr>errorTip :=
               ''Invalid environment configuration. Check .env.local file and restart the project''\<rparr>,
            None)
         else
           (s\<lparr>detectLoading := True, errorTip := []\<rparr>,
            Some \<lparr> url = TRIO_API_URL cfg, httpMethod = ''POST'',
                   authorization = ''Bearer '' @ TRIO_API_KEY cfg,
                   contentType = ''application/json'',
                   stream_url = trimedUrl, condition = DETECT_PROMPT cfg \<rparr>))"

datatype body = JsonRejects exn | JsonResolves json

datatype fetch_outcome =
    FetchRejects exn           \<comment> \<open>network or transport error\<close>
  | FetchResolves bool body    \<comment> \<open>\<open>response.ok\<close> and what \<open>response.json()\<close> does\<close>

definition errorArgument :: "json \<Rightarrow> exn + string" where
  \<comment> \<open>\<open>new Error(result.error?.message || "Trio API call failed")\<close>: the message of the
      new error, or what is thrown while it is computed\<close>
  "errorArgument result =
     (case getProperty result ''error'' of
        Inl e \<Rightarrow> Inl e
      | Inr e \<Rightarrow>
          (case optionalMessage e of
             None \<Rightarrow> Inr ''Trio API call failed''
           | Some m \<Rightarrow>
               if ToBoolean (Some m) then ToString m else Inr ''Trio API call failed''))"

definition tryBlock :: "fetch_outcome \<Rightarrow> state \<Rightarrow> state \<times> exn option" where
  \<comment> \<open>the \<open>try\<close> block from \<open>await fetch\<close> on: the cells written so far and the
      exception it ends with, if any\<close>
  "tryBlock out s =
     (case out of
        FetchRejects e \<Rightarrow> (s, Some e)
      | FetchResolves ok b \<Rightarrow>
          (case b of
             JsonRejects e \<Rightarrow> (s, Some e)
           | JsonResolves result \<Rightarrow>
               if ok then
                 (let s1 = s\<lparr>detectResult := result\<rparr>
                  in case getProperty result ''triggered'' of
                       Inl e \<Rightarrow> (s1, Some e)
                     | Inr t \<Rightarrow>
                         if ToBoolean t then
                           (s1\<lparr>aiStatus := Alert, activeAlerts := activeAlerts s1 + 1\<rparr>, None)
                         else (s1, None))
               else
                 (case errorArgument result of
                    Inl e \<Rightarrow> (s, Some e)
                  | Inr m \<Rightarrow> (s, Some (Error m)))))"

definition catchMessage :: "exn \<Rightarrow> string" where
  "catchMessage err =
     (case err of
        Error m \<Rightarrow> m
      | NotAnError \<Rightarrow> ''Detection request failed, please try again'')"

definition handleDetect_settled :: "fetch_outcome \<Rightarrow> state \<Rightarrow> state" where
  \<comment> \<open>\<open>try\<close>, \<open>catch\<close>, \<open>finally\<close>\<close>
  "handleDetect_settled out s =
     (case tryBlock out s of
        (s1, None) \<Rightarrow> s1\<lparr>detectLoading := False\<rparr>
      | (s1, Some err) \<Rightarrow> s1\<lparr>errorTip := catchMessage err, detectLoading := False\<rparr>)"

subsection \<open>The component: cells, timer reference, interval timers, calls in flight\<close>

text \<open>
  \<open>intervals\<close> are the interval timers the browser holds for the page, each with its
  handle and its delay in milliseconds; handles are positive and never reused.
  \<open>inFlight\<close> counts the calls of \<open>fetch\<close> that have not settled.
\<close>

record component =
  cells :: state
  pollTimerRef :: "nat option"
  intervals :: "(nat \<times> nat) list"
  nextTimer :: nat
  inFlight :: nat

definition setInterval :: "nat \<Rightarrow> component \<Rightarrow> nat \<times> component" where
  "setInterval delay c =
     (nextTimer c,
      c\<lparr>intervals := intervals c @ [(nextTimer c, delay)], nextTimer := Suc (nextTimer c)\<rparr>)"

definition clearInterval :: "nat \<Rightarrow> component \<Rightarrow> component" where
  "clearInterval h c = c\<lparr>intervals := filter (\<lambda>t. fst t \<noteq> h) (intervals c)\<rparr>"

definition callDetect :: "config \<Rightarrow> component \<Rightarrow> component \<times> request list" where
  \<comment> \<open>a call \<open>handleDetect()\<close>, up to its \<open>await\<close>\<close>
  "callDetect cfg c =
     (case handleDetect cfg (cells c) of
        (s, None) \<Rightarrow> (c\<lparr>cells := s\<rparr>, [])
      | (s, Some r) \<Rightarrow> (c\<lparr>cells := s, inFlight := Suc (inFlight c)\<rparr>, [r]))"

definition pollingValid :: "config \<Rightarrow> state \<Rightarrow> bool" where
  \<comment> \<open>the condition of the polling effect\<close>
  "pollingValid cfg s =
     (truthy (videoId s) \<and> trim (youtubeUrl s) \<noteq> [] \<and>
      TRIO_API_URL cfg \<noteq> [] \<and> TRIO_API_KEY cfg \<noteq> [])"

definition effectBody :: "config \<Rightarrow> component \<Rightarrow> component \<times> request list" where
  "effectBody cfg c =
     (if pollingValid cfg (cells c) then
        (let (c1, reqs) = callDetect cfg c;
             (h, c2) = setInterval (60 * 1000) c1
         in (c2\<lparr>pollTimerRef := Some h\<rparr>, reqs))
      else
        (case pollTimerRef c of
           Some h \<Rightarrow> ((clearInterval h c)\<lparr>pollTimerRef := None\<rparr>, [])
         | None \<Rightarrow> (c, [])))"

definition effectCleanup :: "component \<Rightarrow> component" where
  \<comment> \<open>the function the effect returns\<close>
  "effectCleanup c = (case pollTimerRef c of Some h \<Rightarrow> clearInterval h c | None \<Rightarrow> c)"

definition watched :: "state \<Rightarrow> string option \<times> string" where
  \<comment> \<open>the dependency array \<open>[videoId, youtubeUrl]\<close>\<close>
  "watched s = (videoId s, youtubeUrl s)"

definition rerender :: "config \<Rightarrow> state \<Rightarrow> component \<Rightarrow> component \<times> request list" where
  \<comment> \<open>after a render: when a dependency differs from the previous render's, the previous
      effect is cleaned up and the effect runs again\<close>
  "rerender cfg previous c =
     (if watched (cells c) = watched previous then (c, [])
      else effectBody cfg (effectCleanup c))"

definition mounted :: "config \<Rightarrow> component" where
  \<comment> \<open>the first render and its effect\<close>
  "mounted cfg =
     fst (effectBody cfg
       \<lparr> cells = initialState, pollTimerRef = None, intervals = [], nextTimer = 1,
         inFlight = 0 \<rparr>)"

datatype event =
    Typed string              \<comment> \<open>\<open>onChange\<close> of the URL input\<close>
  | LoadClicked               \<comment> \<open>the Load Video button, or Enter in the input\<close>
  | ResetClicked              \<comment> \<open>Normal Mode\<close>
  | DetectClicked             \<comment> \<open>Manual Detect\<close>
  | SimulateClicked           \<comment> \<open>Simulate Alert\<close>
  | IntervalFired nat         \<comment> \<open>the browser runs the callback of an interval timer\<close>
  | FetchSettled fetch_outcome

text \<open>
  The effect runs again whenever \<open>youtubeUrl\<close> changes, so the \<open>handleDetect\<close> closure
  held by a live interval timer reads the current \<open>youtubeUrl\<close>, the only cell
  \<open>handleDetect\<close> reads. The Manual Detect button is disabled while \<open>videoId\<close> is null or
  a detection is loading.
\<close>

definition step :: "config \<Rightarrow> component \<Rightarrow> event \<Rightarrow> component \<times> request list" where
  "step cfg c ev =
     (case ev of
        Typed u \<Rightarrow> rerender cfg (cells c) (c\<lparr>cells := (cells c)\<lparr>youtubeUrl := u\<rparr>\<rparr>)
      | LoadClicked \<Rightarrow> rerender cfg (cells c) (c\<lparr>cells := loadVideo (cells c)\<rparr>)
      | ResetClicked \<Rightarrow> rerender cfg (cells c) (c\<lparr>cells := resetStatus (cells c)\<rparr>)
      | SimulateClicked \<Rightarrow> rerender cfg (cells c) (c\<lparr>cells := triggerMockAlert (cells c)\<rparr>)
      | DetectClicked \<Rightarrow>
          if \<not> truthy (videoId (cells c)) \<or> detectLoading (cells c) then (c, [])
          else callDetect cfg c
      | IntervalFired h \<Rightarrow>
          if h \<in> fst ` set (intervals c) then callDetect cfg c else (c, [])
      | FetchSettled out \<Rightarrow>
          if inFlight c = 0 then (c, [])
          else (c\<lparr>cells := handleDetect_settled out (cells c), inFlight := inFlight c - 1\<rparr>, []))"

fun run :: "config \<Rightarrow> component \<Rightarrow> event list \<Rightarrow> component" where
  "run cfg c [] = c"
| "run cfg c (ev # evs) = run cfg (fst (step cfg c ev)) evs"

subsection \<open>Inputs used in the examples\<close>

definition exampleConfig :: config where
  "exampleConfig =
     \<lparr> TRIO_API_URL = ''https://trio.example/api/check'', TRIO_API_KEY = ''key'',
       DETECT_PROMPT = ''Is there an animated character visible?'' \<rparr>"

definition triggeredResult :: json where
  "triggeredResult =
     JObj [(''triggered'', JBool True), (''explanation'', JStr ''seen''),
           (''latency_ms'', JNum True ''120'')]"

definition quietResult :: json where
  "quietResult =
     JObj [(''triggered'', JBool False), (''explanation'', JStr ''none''),
           (''latency_ms'', JNum True ''95'')]"

definition watchUrl :: string where
  "watchUrl = ''https://www.youtube.com/watch?v=XsOU8JnEpNM''"

definition twoMarkersUrl :: string where
  "twoMarkersUrl = ''https://www.youtube.com/watch?v=XsOU8JnEpNM&v=abc''"

definition notAUrlState :: state where
  \<comment> \<open>a video is loaded, a result is stored, then the input is overwritten\<close>
  "notAUrlState =
     initialState\<lparr>youtubeUrl := ''not a url'', videoId := Some ''XsOU8JnEpNM'',
                  detectResult := quietResult\<rparr>"

definition watchState :: state where
  \<comment> \<open>the URL is typed and not yet loaded\<close>
  "watchState = initialState\<lparr>youtubeUrl := watchUrl\<rparr>"

definition twoMarkersState :: state where
  "twoMarkersState = initialState\<lparr>youtubeUrl := twoMarkersUrl\<rparr>"



definition noEndpointConfig :: config where
  \<comment> \<open>\<open>NEXT_PUBLIC_TRIO_API_URL\<close> is not set\<close>
  "noEndpointConfig = exampleConfig\<lparr>TRIO_API_URL := []\<rparr>"

definition loadedState :: state where
  \<comment> \<open>the URL is loaded and a result is stored\<close>
  "loadedState = watchState\<lparr>videoId := Some ''XsOU8JnEpNM'', detectResult := quietResult\<rparr>"

definition storedState :: state where
  \<comment> \<open>as \<open>loadedState\<close>, with a detection under way\<close>
  "storedState = loadedState\<lparr>detectLoading := True\<rparr>"

definition quotaBody :: json where
  "quotaBody = JObj [(''error'', JObj [(''message'', JStr ''quota exceeded'')])]"

definition emptyMessageBody :: json where
  \<comment> \<open>\<open>{"error": {"message": []}}\<close>\<close>
  "emptyMessageBody = JObj [(''error'', JObj [(''message'', JArr [])])]"

definition typedOnly :: component where
  \<comment> \<open>the component after the URL is typed, before Load Video is clicked\<close>
  "typedOnly = fst (step exampleConfig (mounted exampleConfig) (Typed watchUrl))"

definition typedAfterLoad :: "event list" where
  "typedAfterLoad = [Typed watchUrl, LoadClicked]"

definition afterLoad :: component where
  "afterLoad = run exampleConfig (mounted exampleConfig) typedAfterLoad"

definition shortUrl :: string where
  "shortUrl = ''https://youtu.be/XsOU8JnEpNM''"

definition retyped :: state where
  \<comment> \<open>the cells after the input is overwritten with another URL of the video\<close>
  "retyped = (cells afterLoad)\<lparr>youtubeUrl := shortUrl\<rparr>"

definition blanked :: state where
  \<comment> \<open>the cells after the input is cleared\<close>
  "blanked = (cells afterLoad)\<lparr>youtubeUrl := []\<rparr>"

definition alertTrace :: "event list" where
  "alertTrace =
     [Typed watchUrl, LoadClicked,
      FetchSettled (FetchResolves True (JsonResolves triggeredResult))]"

subsection \<open>The pattern's shapes, stated apart from the matching order\<close>

text \<open>
  These predicates describe the code's pattern, not the platform's URLs. A string has
  the pattern's shape when, somewhere in it, one of the six markers of group 1 (with any
  character but a line terminator in the place of the dot of \<open>youtu.be\<close>) is followed by
  exactly eleven characters other than \<open>#\<close>, \<open>&\<close>, \<open>?\<close> (up to such a character or the
  end of the string). A marker at position \<open>i\<close> is the last marker of the first line when
  no marker starts at a later position of the first line.
\<close>

definition shapeAt :: "string \<Rightarrow> nat \<Rightarrow> bool" where
  "shapeAt u i =
     (case group1 (drop i u) of None \<Rightarrow> False | Some r \<Rightarrow> length (group2 r) = 11)"

definition patternShape :: "string \<Rightarrow> bool" where
  "patternShape u = list_ex (shapeAt u) [0..<Suc (length u)]"

definition lastMarkerAt :: "string \<Rightarrow> nat \<Rightarrow> bool" where
  "lastMarkerAt u i =
     (i \<le> firstLine u \<and> group1 (drop i u) \<noteq> None \<and>
      list_all (\<lambda>j. group1 (drop j u) = None) [Suc i..<Suc (firstLine u)])"

subsection \<open>Invariants of the component\<close>

definition oneTimer :: "component \<Rightarrow> bool" where
  \<comment> \<open>at most one interval timer is live, and the timer reference holds its handle\<close>
  "oneTimer c =
     (length (intervals c) \<le> 1 \<and>
      list_all (\<lambda>t. pollTimerRef c = Some (fst t)) (intervals c))"

definition timerValid :: "config \<Rightarrow> component \<Rightarrow> bool" where
  \<comment> \<open>a timer is live only while polling is valid for the cells\<close>
  "timerValid cfg c = (intervals c = [] \<or> pollingValid cfg (cells c))"

definition calm :: "state \<Rightarrow> bool" where
  \<comment> \<open>the counter is not negative and the status is not \<open>Warning\<close>\<close>
  "calm s = (0 \<le> activeAlerts s \<and> aiStatus s \<noteq> Warning)"

subsection \<open>Video URLs of the platform, from the specification's words\<close>



section \<open>Properties\<close>

subsection \<open>The regular expression finds the last marker of the first line\<close>

lemma group1_Nil: "group1 [] = None"
  by (simp add: group1_def alternatives_def)


lemma backtrack_None: "backtrack u n = None \<longleftrightarrow> (\<forall>i\<le>n. group1 (drop i u) = None)"
proof (induction n)
  case 0
  then show ?case by simp
next
  case (Suc n)
  show ?case
  proof (cases "group1 (drop (Suc n) u)")
    case None
    then show ?thesis using Suc.IH by (auto simp: le_Suc_eq)
  next
    case (Some r)
    then show ?thesis by auto
  qed
qed


lemma backtrack_last:
  "i \<le> n \<Longrightarrow> group1 (drop i u) = Some r \<Longrightarrow>
   (\<forall>j. i < j \<and> j \<le> n \<longrightarrow> group1 (drop j u) = None) \<Longrightarrow>
   backtrack u n = Some (group2 r)"
proof (induction n)
  case 0
  then show ?case by simp
next
  case (Suc n)
  show ?case
  proof (cases "i = Suc n")
    case True
    with Suc.prems show ?thesis by simp
  next
    case False
    with Suc.prems have "i \<le> n" and none: "group1 (drop (Suc n) u) = None" by auto
    with Suc.IH Suc.prems have "backtrack u n = Some (group2 r)" by simp
    with none show ?thesis by simp
  qed
qed

lemma getYoutubeVideoId_length: "getYoutubeVideoId u = Some t \<Longrightarrow> length t = 11"
  by (auto simp: getYoutubeVideoId_def split: if_splits option.splits)

lemma truthy_getYoutubeVideoId: "truthy (getYoutubeVideoId u) \<longleftrightarrow> getYoutubeVideoId u \<noteq> None"
  by (cases "getYoutubeVideoId u") (auto simp: truthy_def dest: getYoutubeVideoId_length)

lemma getYoutubeVideoId_Nil: "getYoutubeVideoId [] = None"
  by (simp add: getYoutubeVideoId_def)


lemma getYoutubeVideoId_last:
  assumes "lastMarkerAt u i" and "group1 (drop i u) = Some r" and "length (group2 r) = 11"
  shows "getYoutubeVideoId u = Some (group2 r)"
proof -
  from assms(1) have i: "i \<le> firstLine u"
    and later: "\<forall>j. i < j \<and> j \<le> firstLine u \<longrightarrow> group1 (drop j u) = None"
    by (auto simp del: upt_Suc simp: lastMarkerAt_def list_all_iff)
  have "backtrack u (firstLine u) = Some (group2 r)"
    by (rule backtrack_last [OF i assms(2) later])
  moreover have "u \<noteq> []" using assms(2) group1_Nil by auto
  ultimately show ?thesis using assms(3) by (simp add: getYoutubeVideoId_def regExpMatch_def)
qed

lemma handleDetect_guard:
  "(trim (youtubeUrl s) = [] \<or> \<not> truthy (getYoutubeVideoId (trim (youtubeUrl s))))
     \<longleftrightarrow> getYoutubeVideoId (trim (youtubeUrl s)) = None"
  using getYoutubeVideoId_Nil by (auto simp: truthy_getYoutubeVideoId)

lemma handleDetect_guarded:
  assumes "getYoutubeVideoId (trim (youtubeUrl s)) = None \<or>
           TRIO_API_URL cfg = [] \<or> TRIO_API_KEY cfg = []"
  shows "snd (handleDetect cfg s) = None \<and>
         errorTip (fst (handleDetect cfg s)) =
           (if getYoutubeVideoId (trim (youtubeUrl s)) = None
            then ''Please load a valid YouTube video before running detection''
            else ''Invalid environment configuration. Check .env.local file and restart the project'') \<and>
         activeAlerts (fst (handleDetect cfg s)) = activeAlerts s \<and>
         fst (handleDetect cfg s) = s\<lparr>errorTip := errorTip (fst (handleDetect cfg s))\<rparr>"
proof (cases "getYoutubeVideoId (trim (youtubeUrl s)) = None")
  case True
  have "trim (youtubeUrl s) = [] \<or> \<not> truthy (getYoutubeVideoId (trim (youtubeUrl s)))"
    unfolding handleDetect_guard by (rule True)
  then have "handleDetect cfg s =
      (s\<lparr>errorTip := ''Please load a valid YouTube video before running detection''\<rparr>, None)"
    unfolding handleDetect_def Let_def by (rule if_P)
  with True show ?thesis by simp
next
  case False
  have g: "\<not> (trim (youtubeUrl s) = [] \<or> \<not> truthy (getYoutubeVideoId (trim (youtubeUrl s))))"
    unfolding handleDetect_guard by (rule False)
  from assms False have c: "TRIO_API_URL cfg = [] \<or> TRIO_API_KEY cfg = []"
    by (elim disjE) simp_all
  have "handleDetect cfg s =
      (s\<lparr>errorTip :=
          ''Invalid environment configuration. Check .env.local file and restart the project''\<rparr>,
       None)"
    unfolding handleDetect_def Let_def using g c by simp
  with False show ?thesis by simp
qed

lemma handleDetect_issues:
  assumes "getYoutubeVideoId (trim (youtubeUrl s)) \<noteq> None"
    and "TRIO_API_URL cfg \<noteq> []" and "TRIO_API_KEY cfg \<noteq> []"
  shows "handleDetect cfg s =
     (s\<lparr>detectLoading := True, errorTip := []\<rparr>,
      Some \<lparr> url = TRIO_API_URL cfg, httpMethod = ''POST'',
             authorization = ''Bearer '' @ TRIO_API_KEY cfg,
             contentType = ''application/json'',
             stream_url = trim (youtubeUrl s), condition = DETECT_PROMPT cfg \<rparr>)"
proof -
  have g: "\<not> (trim (youtubeUrl s) = [] \<or> \<not> truthy (getYoutubeVideoId (trim (youtubeUrl s))))"
    unfolding handleDetect_guard by (rule assms(1))
  show ?thesis unfolding handleDetect_def Let_def using g assms(2,3) by simp
qed

subsection \<open>What the callbacks leave alone\<close>

lemma handleDetect_frame:
  "aiStatus (fst (handleDetect cfg s)) = aiStatus s \<and>
   activeAlerts (fst (handleDetect cfg s)) = activeAlerts s"
  by (simp add: handleDetect_def Let_def)

lemma settled_alerts:
  "activeAlerts (handleDetect_settled out s) = activeAlerts s \<or>
   activeAlerts (handleDetect_settled out s) = activeAlerts s + 1"
  by (simp add: handleDetect_settled_def tryBlock_def Let_def
      split: fetch_outcome.splits body.splits sum.splits)

lemma settled_status:
  "aiStatus (handleDetect_settled out s) = aiStatus s \<or>
   aiStatus (handleDetect_settled out s) = Alert"
  by (simp add: handleDetect_settled_def tryBlock_def Let_def
      split: fetch_outcome.splits body.splits sum.splits)

lemma callDetect_frame:
  "intervals (fst (callDetect cfg c)) = intervals c \<and>
   pollTimerRef (fst (callDetect cfg c)) = pollTimerRef c \<and>
   nextTimer (fst (callDetect cfg c)) = nextTimer c \<and>
   cells (fst (callDetect cfg c)) = fst (handleDetect cfg (cells c)) \<and>
   snd (callDetect cfg c) = (case snd (handleDetect cfg (cells c)) of None \<Rightarrow> [] | Some r \<Rightarrow> [r])"
  by (simp add: callDetect_def split: prod.splits option.splits)

lemma callDetect_cells: "cells (fst (callDetect cfg c)) = fst (handleDetect cfg (cells c))"
  using callDetect_frame [of cfg c] by simp

lemma cells_effectCleanup: "cells (effectCleanup c) = cells c"
  by (simp add: effectCleanup_def clearInterval_def split: option.splits)

lemma effectBody_invalid:
  "\<not> pollingValid cfg (cells c) \<Longrightarrow>
   snd (effectBody cfg c) = [] \<and> cells (fst (effectBody cfg c)) = cells c"
  by (simp add: effectBody_def clearInterval_def split: option.splits)

lemma effectBody_invalid_timers:
  "\<not> pollingValid cfg (cells c) \<Longrightarrow> intervals c = [] \<Longrightarrow>
   intervals (fst (effectBody cfg c)) = []"
  by (simp add: effectBody_def clearInterval_def split: option.splits)

lemma effectBody_valid:
  assumes "pollingValid cfg (cells c)"
  shows "intervals (fst (effectBody cfg c)) = intervals c @ [(nextTimer c, 60000)]"
    and "pollTimerRef (fst (effectBody cfg c)) = Some (nextTimer c)"
    and "cells (fst (effectBody cfg c)) = fst (handleDetect cfg (cells c))"
    and "snd (effectBody cfg c) =
           (case snd (handleDetect cfg (cells c)) of None \<Rightarrow> [] | Some r \<Rightarrow> [r])"
proof -
  obtain c1 reqs where cd: "callDetect cfg c = (c1, reqs)" by (cases "callDetect cfg c")
  with callDetect_frame [of cfg c]
  have f: "intervals c1 = intervals c" "nextTimer c1 = nextTimer c"
    "cells c1 = fst (handleDetect cfg (cells c))"
    "reqs = (case snd (handleDetect cfg (cells c)) of None \<Rightarrow> [] | Some r \<Rightarrow> [r])"
    by simp_all
  have "effectBody cfg c =
      (c1\<lparr>intervals := intervals c1 @ [(nextTimer c1, 60 * 1000)],
           nextTimer := Suc (nextTimer c1), pollTimerRef := Some (nextTimer c1)\<rparr>, reqs)"
    using assms cd by (simp add: effectBody_def setInterval_def)
  with f show "intervals (fst (effectBody cfg c)) = intervals c @ [(nextTimer c, 60000)]"
    and "pollTimerRef (fst (effectBody cfg c)) = Some (nextTimer c)"
    and "cells (fst (effectBody cfg c)) = fst (handleDetect cfg (cells c))"
    and "snd (effectBody cfg c) =
           (case snd (handleDetect cfg (cells c)) of None \<Rightarrow> [] | Some r \<Rightarrow> [r])"
    by simp_all
qed

lemma effectBody_cells:
  "cells (fst (effectBody cfg c)) =
     (if pollingValid cfg (cells c) then fst (handleDetect cfg (cells c)) else cells c)"
  using effectBody_valid(3) [of cfg c] effectBody_invalid [of cfg c] by simp

lemma rerender_cells:
  "cells (fst (rerender cfg previous c)) = cells c \<or>
   cells (fst (rerender cfg previous c)) = fst (handleDetect cfg (cells c))"
  by (simp add: rerender_def effectBody_cells cells_effectCleanup)

lemma mounted_eq:
  "mounted cfg =
     \<lparr> cells = initialState, pollTimerRef = None, intervals = [], nextTimer = 1, inFlight = 0 \<rparr>"
  by (simp add: mounted_def effectBody_def pollingValid_def truthy_def initialState_def)

subsection \<open>Invariants along every sequence of events\<close>

lemma run_invariant:
  assumes "P c" and "\<And>c ev. P c \<Longrightarrow> P (fst (step cfg c ev))"
  shows "P (run cfg c evs)"
  using assms(1)
proof (induction evs arbitrary: c)
  case Nil
  then show ?case by simp
next
  case (Cons ev evs)
  from Cons.prems have "P (fst (step cfg c ev))" by (rule assms(2))
  then have "P (run cfg (fst (step cfg c ev)) evs)" by (rule Cons.IH)
  then show ?case by simp
qed

lemma effectCleanup_clears: "oneTimer c \<Longrightarrow> intervals (effectCleanup c) = []"
proof (cases "pollTimerRef c")
  case None
  assume "oneTimer c"
  with None have "intervals c = []" by (cases "intervals c") (simp_all add: oneTimer_def)
  with None show ?thesis by (simp add: effectCleanup_def)
next
  case (Some h)
  assume "oneTimer c"
  with Some have "\<forall>t\<in>set (intervals c). fst t = h" by (auto simp: oneTimer_def list_all_iff)
  then have "filter (\<lambda>t. fst t \<noteq> h) (intervals c) = []" by (simp add: filter_empty_conv)
  with Some show ?thesis by (simp add: effectCleanup_def clearInterval_def)
qed

lemma effectBody_oneTimer: "intervals c = [] \<Longrightarrow> oneTimer (fst (effectBody cfg c))"
proof (cases "pollingValid cfg (cells c)")
  case True
  assume "intervals c = []"
  with effectBody_valid(1,2) [OF True] show ?thesis by (simp add: oneTimer_def)
next
  case False
  assume "intervals c = []"
  with effectBody_invalid_timers [OF False] show ?thesis by (simp add: oneTimer_def)
qed

lemma rerender_oneTimer: "oneTimer c \<Longrightarrow> oneTimer (fst (rerender cfg previous c))"
  by (simp add: rerender_def effectBody_oneTimer effectCleanup_clears)

lemma oneTimer_cells: "oneTimer (c\<lparr>cells := s\<rparr>) = oneTimer c"
  by (simp add: oneTimer_def)

lemma step_oneTimer: "oneTimer c \<Longrightarrow> oneTimer (fst (step cfg c ev))"
proof (cases ev)
  case (Typed u)
  assume "oneTimer c"
  then show ?thesis using Typed by (simp add: step_def rerender_oneTimer oneTimer_cells)
next
  case LoadClicked
  assume "oneTimer c"
  then show ?thesis using LoadClicked by (simp add: step_def rerender_oneTimer oneTimer_cells)
next
  case ResetClicked
  assume "oneTimer c"
  then show ?thesis using ResetClicked by (simp add: step_def rerender_oneTimer oneTimer_cells)
next
  case DetectClicked
  assume "oneTimer c"
  then show ?thesis using DetectClicked callDetect_frame [of cfg c]
    by (simp add: step_def oneTimer_def)
next
  case SimulateClicked
  assume "oneTimer c"
  then show ?thesis using SimulateClicked by (simp add: step_def rerender_oneTimer oneTimer_cells)
next
  case (IntervalFired h)
  assume "oneTimer c"
  then show ?thesis using IntervalFired callDetect_frame [of cfg c]
    by (simp add: step_def oneTimer_def)
next
  case (FetchSettled out)
  assume "oneTimer c"
  then show ?thesis using FetchSettled by (simp add: step_def oneTimer_def)
qed

lemma oneTimer_run: "oneTimer (run cfg (mounted cfg) evs)"
proof (rule run_invariant)
  show "oneTimer (mounted cfg)" by (simp add: mounted_eq oneTimer_def)
next
  fix c ev assume "oneTimer c"
  then show "oneTimer (fst (step cfg c ev))" by (rule step_oneTimer)
qed

lemma calm_handleDetect: "calm s \<Longrightarrow> calm (fst (handleDetect cfg s))"
  by (simp add: calm_def handleDetect_frame)

lemma calm_rerender: "calm (cells c) \<Longrightarrow> calm (cells (fst (rerender cfg previous c)))"
  using rerender_cells [of cfg previous c] calm_handleDetect [of "cells c" cfg] by auto

lemma calm_settled: "calm s \<Longrightarrow> calm (handleDetect_settled out s)"
  using settled_alerts [of out s] settled_status [of out s] by (auto simp: calm_def)

lemma calm_step: "calm (cells c) \<Longrightarrow> calm (cells (fst (step cfg c ev)))"
proof (cases ev)
  case (Typed u)
  assume "calm (cells c)"
  then have "calm (cells (c\<lparr>cells := (cells c)\<lparr>youtubeUrl := u\<rparr>\<rparr>))" by (simp add: calm_def)
  then show ?thesis unfolding Typed step_def event.case by (rule calm_rerender)
next
  case LoadClicked
  assume "calm (cells c)"
  then have "calm (cells (c\<lparr>cells := loadVideo (cells c)\<rparr>))"
    by (simp add: calm_def loadVideo_def Let_def)
  then show ?thesis unfolding LoadClicked step_def event.case by (rule calm_rerender)
next
  case ResetClicked
  have "calm (cells (c\<lparr>cells := resetStatus (cells c)\<rparr>))" by (simp add: calm_def resetStatus_def)
  then show ?thesis unfolding ResetClicked step_def event.case by (rule calm_rerender)
next
  case DetectClicked
  assume "calm (cells c)"
  then show ?thesis using DetectClicked
    by (simp add: step_def callDetect_cells calm_handleDetect)
next
  case SimulateClicked
  have "calm (cells (c\<lparr>cells := triggerMockAlert (cells c)\<rparr>))"
    by (simp add: calm_def triggerMockAlert_def)
  then show ?thesis unfolding SimulateClicked step_def event.case by (rule calm_rerender)
next
  case (IntervalFired h)
  assume "calm (cells c)"
  then show ?thesis using IntervalFired
    by (simp add: step_def callDetect_cells calm_handleDetect)
next
  case (FetchSettled out)
  assume "calm (cells c)"
  then show ?thesis using FetchSettled by (simp add: step_def calm_settled)
qed

lemma calm_run: "calm (cells (run cfg (mounted cfg) evs))"
proof (rule run_invariant [where P = "\<lambda>c. calm (cells c)"])
  show "calm (cells (mounted cfg))" by (simp add: mounted_eq calm_def initialState_def)
next
  fix c :: component and ev :: event
  assume "calm (cells c)"
  then show "calm (cells (fst (step cfg c ev)))" by (rule calm_step)
qed

lemma pollingValid_watched:
  "watched s = watched s' \<Longrightarrow> pollingValid cfg s = pollingValid cfg s'"
  by (simp add: watched_def pollingValid_def)

lemma watched_handleDetect: "watched (fst (handleDetect cfg s)) = watched s"
  by (simp add: watched_def handleDetect_def Let_def)

lemma watched_settled: "watched (handleDetect_settled out s) = watched s"
  by (simp add: watched_def handleDetect_settled_def tryBlock_def Let_def
      split: fetch_outcome.splits body.splits sum.splits)

lemma rerender_timerValid:
  assumes "oneTimer c" and "intervals c = [] \<or> pollingValid cfg previous"
  shows "timerValid cfg (fst (rerender cfg previous c))"
proof (cases "watched (cells c) = watched previous")
  case True
  then have "pollingValid cfg (cells c) = pollingValid cfg previous"
    by (rule pollingValid_watched)
  with True assms(2) show ?thesis by (simp add: rerender_def timerValid_def)
next
  case False
  let ?c1 = "effectCleanup c"
  have empty: "intervals ?c1 = []" using assms(1) by (rule effectCleanup_clears)
  have "timerValid cfg (fst (effectBody cfg ?c1))"
  proof (cases "pollingValid cfg (cells ?c1)")
    case True
    have "pollingValid cfg (fst (handleDetect cfg (cells ?c1))) = pollingValid cfg (cells ?c1)"
      by (rule pollingValid_watched) (rule watched_handleDetect)
    with True effectBody_valid(3) [OF True] show ?thesis by (simp add: timerValid_def)
  next
    case False
    from effectBody_invalid_timers [OF False empty] show ?thesis by (simp add: timerValid_def)
  qed
  with False show ?thesis by (simp add: rerender_def)
qed

lemma step_timerValid:
  assumes "oneTimer c" and "timerValid cfg c"
  shows "timerValid cfg (fst (step cfg c ev))"
proof -
  have pre: "\<And>s. intervals (c\<lparr>cells := s\<rparr>) = [] \<or> pollingValid cfg (cells c)"
    using assms(2) by (simp add: timerValid_def)
  have one: "\<And>s. oneTimer (c\<lparr>cells := s\<rparr>)" using assms(1) by (simp add: oneTimer_cells)
  have det: "timerValid cfg (fst (callDetect cfg c))"
  proof -
    have "pollingValid cfg (fst (handleDetect cfg (cells c))) = pollingValid cfg (cells c)"
      by (rule pollingValid_watched) (rule watched_handleDetect)
    with assms(2) callDetect_frame [of cfg c] show ?thesis by (simp add: timerValid_def)
  qed
  show ?thesis
  proof (cases ev)
    case (Typed u)
    then show ?thesis unfolding step_def event.case by (simp add: rerender_timerValid [OF one pre])
  next
    case LoadClicked
    then show ?thesis unfolding step_def event.case by (simp add: rerender_timerValid [OF one pre])
  next
    case ResetClicked
    then show ?thesis unfolding step_def event.case by (simp add: rerender_timerValid [OF one pre])
  next
    case DetectClicked
    then show ?thesis using det assms(2) by (simp add: step_def)
  next
    case SimulateClicked
    then show ?thesis unfolding step_def event.case by (simp add: rerender_timerValid [OF one pre])
  next
    case (IntervalFired h)
    then show ?thesis using det assms(2) by (simp add: step_def)
  next
    case (FetchSettled out)
    have "pollingValid cfg (handleDetect_settled out (cells c)) = pollingValid cfg (cells c)"
      by (rule pollingValid_watched) (rule watched_settled)
    with FetchSettled assms(2) show ?thesis by (simp add: step_def timerValid_def)
  qed
qed

lemma timerValid_run: "timerValid cfg (run cfg (mounted cfg) evs)"
proof -
  have "oneTimer (run cfg (mounted cfg) evs) \<and> timerValid cfg (run cfg (mounted cfg) evs)"
  proof (rule run_invariant [where P = "\<lambda>c. oneTimer c \<and> timerValid cfg c"])
    show "oneTimer (mounted cfg) \<and> timerValid cfg (mounted cfg)"
      by (simp add: mounted_eq oneTimer_def timerValid_def)
  next
    fix c :: component and ev :: event
    assume "oneTimer c \<and> timerValid cfg c"
    then show "oneTimer (fst (step cfg c ev)) \<and> timerValid cfg (fst (step cfg c ev))"
      by (simp add: step_oneTimer step_timerValid)
  qed
  then show ?thesis by simp
qed

lemma no_detect_without_video:
  assumes "c = run cfg (mounted cfg) evs" and "\<not> truthy (videoId (cells c))"
  shows "step cfg c DetectClicked = (c, []) \<and> step cfg c (IntervalFired h) = (c, []) \<and>
         snd (step cfg c (Typed u)) = []"
proof -
  have "timerValid cfg c" unfolding assms(1) by (rule timerValid_run)
  with assms(2) have none: "intervals c = []" by (simp add: timerValid_def pollingValid_def)
  have "\<not> pollingValid cfg (cells (effectCleanup (c\<lparr>cells := (cells c)\<lparr>youtubeUrl := u\<rparr>\<rparr>)))"
    using assms(2) by (simp add: cells_effectCleanup pollingValid_def)
  from effectBody_invalid [OF this]
  have "snd (step cfg c (Typed u)) = []" by (simp add: step_def rerender_def)
  with none assms(2) show ?thesis by (simp add: step_def)
qed

subsection \<open>The example inputs, evaluated\<close>

lemma watchUrl_id: "getYoutubeVideoId (trim watchUrl) = Some ''XsOU8JnEpNM''"
  by code_simp

lemma watchUrl_trim: "trim watchUrl \<noteq> []"
  by code_simp

lemma shortUrl_id: "getYoutubeVideoId (trim shortUrl) = Some ''XsOU8JnEpNM''"
  by code_simp

lemma shortUrl_trim: "trim shortUrl = ''https://youtu.be/XsOU8JnEpNM''"
  by code_simp

lemma url_neq: "shortUrl \<noteq> watchUrl" "watchUrl \<noteq> []" "[] \<noteq> watchUrl"
  by (simp_all add: shortUrl_def watchUrl_def)

lemma afterLoad_eq:
  "afterLoad =
     \<lparr> cells = \<lparr> aiStatus = Running, activeAlerts = 0, youtubeUrl = watchUrl,
                 videoId = Some ''XsOU8JnEpNM'', errorTip = [], detectResult = JNull,
                 detectLoading = True \<rparr>,
       pollTimerRef = Some 1, intervals = [(1, 60000)], nextTimer = 2, inFlight = 1 \<rparr>"
  by (simp add: afterLoad_def typedAfterLoad_def step_def rerender_def watched_def mounted_eq
      effectBody_def effectCleanup_def pollingValid_def truthy_def initialState_def
      loadVideo_def callDetect_def handleDetect_def setInterval_def exampleConfig_def
      watchUrl_id watchUrl_trim url_neq Let_def)

lemma alertTrace_cells:
  "aiStatus (cells (run exampleConfig (mounted exampleConfig) alertTrace)) = Alert \<and>
   activeAlerts (cells (run exampleConfig (mounted exampleConfig) alertTrace)) = 1"
  by (simp add: alertTrace_def step_def rerender_def watched_def mounted_eq
      effectBody_def effectCleanup_def pollingValid_def truthy_def initialState_def
      loadVideo_def callDetect_def handleDetect_def setInterval_def exampleConfig_def
      watchUrl_id watchUrl_trim url_neq Let_def handleDetect_settled_def tryBlock_def
      getProperty_def triggeredResult_def)

subsection \<open>Detection results and the alert counter\<close>

text \<open>
  Claim C1. When a call of \<open>handleDetect\<close> settles with an HTTP-ok response whose parsed
  body has \<open>triggered = true\<close>, the status becomes alert and the alert counter is one more
  than it was; when the body has \<open>triggered = false\<close>, the counter and the status stay as
  they were. In both cases the body is stored as the detection result.
\<close>

theorem detect_ok_updates_alerts:
  "(member result ''triggered'' = Some (JBool True) \<longrightarrow>
      aiStatus (handleDetect_settled (FetchResolves True (JsonResolves result)) s) = Alert \<and>
      activeAlerts (handleDetect_settled (FetchResolves True (JsonResolves result)) s)
        = activeAlerts s + 1 \<and>
      detectResult (handleDetect_settled (FetchResolves True (JsonResolves result)) s) = result) \<and>
   (member result ''triggered'' = Some (JBool False) \<longrightarrow>
      activeAlerts (handleDetect_settled (FetchResolves True (JsonResolves result)) s)
        = activeAlerts s \<and>
      aiStatus (handleDetect_settled (FetchResolves True (JsonResolves result)) s) = aiStatus s \<and>
      detectResult (handleDetect_settled (FetchResolves True (JsonResolves result)) s) = result)"
proof -
  have nn: "member result ''triggered'' \<noteq> None \<Longrightarrow> result \<noteq> JNull"
    by (cases result) simp_all
  show ?thesis
    by (auto simp: handleDetect_settled_def tryBlock_def getProperty_def Let_def dest: nn)
qed

theorem detect_ok_updates_alerts_witness:
  "member triggeredResult ''triggered'' = Some (JBool True) \<and>
   aiStatus (handleDetect_settled (FetchResolves True (JsonResolves triggeredResult))
     initialState) = Alert \<and>
   activeAlerts (handleDetect_settled (FetchResolves True (JsonResolves triggeredResult))
     initialState) = 1 \<and>
   member quietResult ''triggered'' = Some (JBool False) \<and>
   activeAlerts (handleDetect_settled (FetchResolves True (JsonResolves quietResult))
     (triggerMockAlert initialState)) = 1 \<and>
   aiStatus (handleDetect_settled (FetchResolves True (JsonResolves quietResult))
     (triggerMockAlert initialState)) = Alert"
  using detect_ok_updates_alerts [of triggeredResult initialState]
        detect_ok_updates_alerts [of quietResult "triggerMockAlert initialState"]
  by (simp add: triggeredResult_def quietResult_def initialState_def triggerMockAlert_def)

subsection \<open>The guards of \<open>handleDetect\<close>\<close>

text \<open>
  Claim C2, as amended. \<open>handleDetect\<close> validates the URL input, not \<open>videoId\<close>. When
  the trimmed URL input yields no video id (an empty input included), or the endpoint URL
  is empty, or the API credential is empty, \<open>handleDetect\<close> issues no request, sets the
  error message (the fixed load-a-video message when the input yields no id, the fixed
  configuration message otherwise) and changes no other cell, so the alert counter keeps
  its value. While the Stream Reference \<open>videoId\<close> is absent the page does not call
  \<open>handleDetect\<close> at all: Manual Detect is disabled, no interval timer is live and
  typing starts none, so no request is issued then either.

  As stated, for every state whose Stream Reference is absent, the claim fails: with a
  valid URL typed and not yet loaded, and the configuration present, \<open>handleDetect\<close>
  issues the request; and the click on Manual Detect, disabled in that state, sets no
  error message.
\<close>

theorem handleDetect_blocked:
  "(getYoutubeVideoId (trim (youtubeUrl s)) = None \<or>
    TRIO_API_URL cfg = [] \<or> TRIO_API_KEY cfg = [] \<longrightarrow>
      snd (handleDetect cfg s) = None \<and>
      errorTip (fst (handleDetect cfg s)) =
        (if getYoutubeVideoId (trim (youtubeUrl s)) = None
         then ''Please load a valid YouTube video before running detection''
         else ''Invalid environment configuration. Check .env.local file and restart the project'') \<and>
      activeAlerts (fst (handleDetect cfg s)) = activeAlerts s \<and>
      fst (handleDetect cfg s) = s\<lparr>errorTip := errorTip (fst (handleDetect cfg s))\<rparr>) \<and>
   (\<not> truthy (videoId (cells (run cfg (mounted cfg) evs))) \<longrightarrow>
      step cfg (run cfg (mounted cfg) evs) DetectClicked = (run cfg (mounted cfg) evs, []) \<and>
      step cfg (run cfg (mounted cfg) evs) (IntervalFired h) = (run cfg (mounted cfg) evs, []) \<and>
      snd (step cfg (run cfg (mounted cfg) evs) (Typed u)) = [])"
proof (intro conjI impI)
  assume a: "getYoutubeVideoId (trim (youtubeUrl s)) = None \<or>
    TRIO_API_URL cfg = [] \<or> TRIO_API_KEY cfg = []"
  note g = handleDetect_guarded [OF a]
  from g show "snd (handleDetect cfg s) = None" by (rule conjunct1)
  from g show "errorTip (fst (handleDetect cfg s)) =
        (if getYoutubeVideoId (trim (youtubeUrl s)) = None
         then ''Please load a valid YouTube video before running detection''
         else ''Invalid environment configuration. Check .env.local file and restart the project'')"
    by (rule conjunct2 [THEN conjunct1])
  from g show "activeAlerts (fst (handleDetect cfg s)) = activeAlerts s"
    by (rule conjunct2 [THEN conjunct2, THEN conjunct1])
  from g show "fst (handleDetect cfg s) = s\<lparr>errorTip := errorTip (fst (handleDetect cfg s))\<rparr>"
    by (rule conjunct2 [THEN conjunct2, THEN conjunct2])
next
  assume b: "\<not> truthy (videoId (cells (run cfg (mounted cfg) evs)))"
  note n = no_detect_without_video [OF refl b]
  from n show "step cfg (run cfg (mounted cfg) evs) DetectClicked = (run cfg (mounted cfg) evs, [])"
    by (rule conjunct1)
  from n show "step cfg (run cfg (mounted cfg) evs) (IntervalFired h) = (run cfg (mounted cfg) evs, [])"
    by (rule conjunct2 [THEN conjunct1])
  from n show "snd (step cfg (run cfg (mounted cfg) evs) (Typed u)) = []"
    by (rule conjunct2 [THEN conjunct2])
qed

theorem handleDetect_blocked_witness:
  "videoId loadedState = Some ''XsOU8JnEpNM'' \<and> TRIO_API_URL noEndpointConfig = [] \<and>
   snd (handleDetect noEndpointConfig loadedState) = None \<and>
   errorTip (fst (handleDetect noEndpointConfig loadedState)) =
     ''Invalid environment configuration. Check .env.local file and restart the project'' \<and>
   activeAlerts (fst (handleDetect noEndpointConfig loadedState)) = activeAlerts loadedState \<and>
   getYoutubeVideoId (trim (youtubeUrl notAUrlState)) = None \<and>
   snd (handleDetect exampleConfig notAUrlState) = None \<and>
   errorTip (fst (handleDetect exampleConfig notAUrlState)) =
     ''Please load a valid YouTube video before running detection'' \<and>
   \<not> truthy (videoId (cells (run exampleConfig (mounted exampleConfig) []))) \<and>
   step exampleConfig (mounted exampleConfig) DetectClicked = (mounted exampleConfig, [])"
proof -
  have a: "TRIO_API_URL noEndpointConfig = []" by (simp add: noEndpointConfig_def)
  have b: "getYoutubeVideoId (trim (youtubeUrl loadedState)) = Some ''XsOU8JnEpNM''" by code_simp
  have c: "getYoutubeVideoId (trim (youtubeUrl notAUrlState)) = None" by code_simp
  have d: "videoId loadedState = Some ''XsOU8JnEpNM''" by (simp add: loadedState_def)
  have e: "\<not> truthy (videoId (cells (run exampleConfig (mounted exampleConfig) [])))"
    by (simp add: mounted_eq truthy_def initialState_def)
  from a b c d e handleDetect_blocked [of loadedState noEndpointConfig "[]"]
    handleDetect_blocked [of notAUrlState exampleConfig "[]"]
  show ?thesis by simp
qed

theorem handleDetect_unloaded_counterexample:
  "cells typedOnly = watchState \<and> videoId watchState = None \<and>
   snd (handleDetect exampleConfig watchState) =
     Some \<lparr> url = ''https://trio.example/api/check'', httpMethod = ''POST'',
            authorization = ''Bearer key'', contentType = ''application/json'',
            stream_url = ''https://www.youtube.com/watch?v=XsOU8JnEpNM'',
            condition = ''Is there an animated character visible?'' \<rparr> \<and>
   errorTip (fst (handleDetect exampleConfig watchState)) = [] \<and>
   step exampleConfig typedOnly DetectClicked = (typedOnly, []) \<and>
   errorTip (cells typedOnly) = []"
proof -
  have a: "getYoutubeVideoId (trim (youtubeUrl watchState)) = Some ''XsOU8JnEpNM''" by code_simp
  have t: "trim (youtubeUrl watchState) = ''https://www.youtube.com/watch?v=XsOU8JnEpNM''"
    by code_simp
  have b: "typedOnly = (mounted exampleConfig)\<lparr>cells := watchState\<rparr>"
    by (simp add: typedOnly_def step_def rerender_def mounted_eq effectBody_def effectCleanup_def
        pollingValid_def truthy_def initialState_def watchState_def watched_def)
  have c: "videoId watchState = None" "errorTip watchState = []"
    by (simp_all add: watchState_def initialState_def)
  have d: "step exampleConfig typedOnly DetectClicked = (typedOnly, [])"
    by (simp add: b c step_def truthy_def)
  have e: "cells typedOnly = watchState" by (simp add: b)
  from a t c d e show ?thesis
    by (simp add: handleDetect_def Let_def truthy_def exampleConfig_def)
qed

subsection \<open>Loading a video\<close>

text \<open>
  Claim C3, as amended. When the trimmed URL input yields no video id, \<open>loadVideo\<close>
  sets \<open>videoId\<close> to null, shows the invalid-link message and clears the stored
  detection result; the status, the alert counter, the URL input and the loading flag
  keep their values, and the click issues no request (the polling effect, if it runs
  again, finds no video id).

  As stated the claim fails on the stored detection result: \<open>loadVideo\<close> calls
  \<open>setDetectResult(null)\<close> before it validates the input.
\<close>

theorem loadVideo_failure_frame:
  assumes "getYoutubeVideoId (trim (youtubeUrl s)) = None"
  shows "videoId (loadVideo s) = None \<and>
         errorTip (loadVideo s) = ''Invalid link, please enter a valid YouTube video URL'' \<and>
         detectResult (loadVideo s) = JNull \<and>
         aiStatus (loadVideo s) = aiStatus s \<and>
         activeAlerts (loadVideo s) = activeAlerts s \<and>
         youtubeUrl (loadVideo s) = youtubeUrl s \<and>
         detectLoading (loadVideo s) = detectLoading s \<and>
         (cells c = s \<longrightarrow>
            snd (step cfg c LoadClicked) = [] \<and>
            cells (fst (step cfg c LoadClicked)) = loadVideo s)"
proof -
  have fields: "loadVideo s =
      s\<lparr>errorTip := ''Invalid link, please enter a valid YouTube video URL'',
        detectResult := JNull, videoId := None\<rparr>"
    using assms by (simp add: loadVideo_def truthy_def)
  have "\<not> pollingValid cfg (loadVideo s)"
    by (simp add: fields pollingValid_def truthy_def)
  then have "\<not> pollingValid cfg (cells (effectCleanup (c\<lparr>cells := loadVideo s\<rparr>)))"
    by (simp add: cells_effectCleanup)
  from effectBody_invalid [OF this]
  have "cells c = s \<longrightarrow>
        snd (step cfg c LoadClicked) = [] \<and> cells (fst (step cfg c LoadClicked)) = loadVideo s"
    by (simp add: step_def rerender_def cells_effectCleanup)
  then show ?thesis by (simp add: fields)
qed

theorem loadVideo_failure_frame_witness:
  "getYoutubeVideoId (trim (youtubeUrl notAUrlState)) = None \<and>
   videoId (loadVideo notAUrlState) = None \<and>
   detectResult (loadVideo notAUrlState) = JNull \<and>
   aiStatus (loadVideo notAUrlState) = Running \<and>
   activeAlerts (loadVideo notAUrlState) = 0 \<and>
   snd (step exampleConfig ((mounted exampleConfig)\<lparr>cells := notAUrlState\<rparr>) LoadClicked) = []"
proof -
  have a: "getYoutubeVideoId (trim (youtubeUrl notAUrlState)) = None" by code_simp
  from a loadVideo_failure_frame [OF a, of "(mounted exampleConfig)\<lparr>cells := notAUrlState\<rparr>" exampleConfig]
  show ?thesis by (simp add: notAUrlState_def initialState_def)
qed

theorem loadVideo_clears_result_counterexample:
  "getYoutubeVideoId (trim (youtubeUrl notAUrlState)) = None \<and>
   detectResult notAUrlState = quietResult \<and>
   detectResult (loadVideo notAUrlState) = JNull \<and>
   detectResult (loadVideo notAUrlState) \<noteq> detectResult notAUrlState"
proof -
  have a: "getYoutubeVideoId (trim (youtubeUrl notAUrlState)) = None" by code_simp
  then show ?thesis
    by (simp add: loadVideo_def truthy_def notAUrlState_def quietResult_def)
qed




text \<open>
  Claim C5, as amended. The expression's leading \<open>.*\<close> is greedy, so the marker that
  counts is the last one on the first line of the trimmed input. When that marker is
  followed by exactly eleven token characters, \<open>loadVideo\<close> sets \<open>videoId\<close> to exactly
  that token and leaves no error message; for
  \<open>https://www.youtube.com/watch?v=XsOU8JnEpNM\<close> the token is \<open>XsOU8JnEpNM\<close>.

  As stated, for every URL that contains a marker followed by an eleven-character token,
  the claim fails: in \<open>https://www.youtube.com/watch?v=XsOU8JnEpNM&v=abc\<close> the marker
  \<open>watch?v=\<close> is followed by the token \<open>XsOU8JnEpNM\<close>, but the later marker \<open>&v=\<close> is
  the one matched, its token \<open>abc\<close> has three characters and the URL is rejected.
\<close>

theorem loadVideo_accepts_last_marker:
  assumes "lastMarkerAt (trim (youtubeUrl s)) i"
    and "group1 (drop i (trim (youtubeUrl s))) = Some r"
    and "length (group2 r) = 11"
  shows "videoId (loadVideo s) = Some (group2 r) \<and> errorTip (loadVideo s) = [] \<and>
         detectResult (loadVideo s) = JNull"
proof -
  have "getYoutubeVideoId (trim (youtubeUrl s)) = Some (group2 r)"
    by (rule getYoutubeVideoId_last [OF assms])
  moreover have "group2 r \<noteq> []" using assms(3) by auto
  ultimately show ?thesis by (simp add: loadVideo_def truthy_def)
qed

theorem loadVideo_accepts_last_marker_witness:
  "youtubeUrl watchState = ''https://www.youtube.com/watch?v=XsOU8JnEpNM'' \<and>
   lastMarkerAt (trim (youtubeUrl watchState)) 24 \<and>
   group1 (drop 24 (trim (youtubeUrl watchState))) = Some ''XsOU8JnEpNM'' \<and>
   videoId (loadVideo watchState) = Some ''XsOU8JnEpNM'' \<and>
   errorTip (loadVideo watchState) = []"
proof -
  have a: "lastMarkerAt (trim (youtubeUrl watchState)) 24" by code_simp
  have b: "group1 (drop 24 (trim (youtubeUrl watchState))) = Some ''XsOU8JnEpNM''" by code_simp
  have c: "length (group2 ''XsOU8JnEpNM'') = 11" by code_simp
  have d: "group2 ''XsOU8JnEpNM'' = ''XsOU8JnEpNM''" by code_simp
  from a b d loadVideo_accepts_last_marker [OF a b c]
  show ?thesis by (simp add: watchState_def watchUrl_def initialState_def)
qed

theorem loadVideo_later_marker_counterexample:
  "youtubeUrl twoMarkersState = ''https://www.youtube.com/watch?v=XsOU8JnEpNM&v=abc'' \<and>
   group1 (drop 24 (trim (youtubeUrl twoMarkersState))) = Some ''XsOU8JnEpNM&v=abc'' \<and>
   group2 ''XsOU8JnEpNM&v=abc'' = ''XsOU8JnEpNM'' \<and>
   patternShape (trim (youtubeUrl twoMarkersState)) \<and>
   videoId (loadVideo twoMarkersState) = None \<and>
   errorTip (loadVideo twoMarkersState) = ''Invalid link, please enter a valid YouTube video URL''"
proof -
  have a: "group1 (drop 24 (trim (youtubeUrl twoMarkersState))) = Some ''XsOU8JnEpNM&v=abc''"
    by code_simp
  have b: "group2 ''XsOU8JnEpNM&v=abc'' = ''XsOU8JnEpNM''" by code_simp
  have c: "patternShape (trim (youtubeUrl twoMarkersState))" by code_simp
  have d: "getYoutubeVideoId (trim (youtubeUrl twoMarkersState)) = None" by code_simp
  from a b c d show ?thesis
    by (simp add: loadVideo_def truthy_def twoMarkersState_def twoMarkersUrl_def initialState_def)
qed

subsection \<open>Failed detections\<close>

text \<open>
  Claim C6, as amended. When a call of \<open>handleDetect\<close> fails after its guards because
  \<open>fetch\<close> rejects, because the response body is not JSON, or because the response is
  not HTTP-ok, the stored detection result keeps its value and the error message is set
  to a text derived from the exception or from the payload: the message of the exception
  (the fixed text \<open>Detection request failed, please try again\<close> when the thrown value is
  not an \<open>Error\<close>), and for a response that is not ok the payload's \<open>error.message\<close>
  when that is a non-empty string, the fixed text \<open>Trio API call failed\<close> when
  \<open>error.message\<close> is missing or falsy, the string conversion of \<open>error.message\<close> when
  it is truthy and not a string (the message of the TypeError when that conversion
  throws), and the text of the engine's TypeError when the payload is null. The page shows the message when the exception is not an \<open>Error\<close> or has a
  non-empty message, and for a response that is not ok when the payload is null or its
  \<open>error.message\<close> is a non-empty string, missing or falsy.

  As stated the claim fails twice. An HTTP-ok response whose body is the JSON value
  \<open>null\<close> is stored as the detection result before \<open>result.triggered\<close> throws, so the
  call ends with an error message and the previously stored result is gone. And a
  response that is not ok with the payload \<open>{"error": {"message": []}}\<close> sets the
  empty message, the string conversion of the empty array, which the page does not show.
\<close>

theorem handleDetect_failure_keeps_result:
  "(detectResult (handleDetect_settled (FetchRejects e) s) = detectResult s \<and>
    errorTip (handleDetect_settled (FetchRejects e) s) = catchMessage e) \<and>
   (detectResult (handleDetect_settled (FetchResolves ok (JsonRejects e)) s) = detectResult s \<and>
    errorTip (handleDetect_settled (FetchResolves ok (JsonRejects e)) s) = catchMessage e) \<and>
   (detectResult (handleDetect_settled (FetchResolves False (JsonResolves result)) s)
      = detectResult s \<and>
    errorTip (handleDetect_settled (FetchResolves False (JsonResolves result)) s)
      = (case errorArgument result of Inl ex \<Rightarrow> catchMessage ex | Inr m \<Rightarrow> m)) \<and>
   (member result ''error'' = Some err \<and> member err ''message'' = Some (JStr m) \<and> m \<noteq> [] \<longrightarrow>
      errorArgument result = Inr m \<and>
      errorShown (handleDetect_settled (FetchResolves False (JsonResolves result)) s)) \<and>
   (result \<noteq> JNull \<and> \<not> ToBoolean (optionalMessage (member result ''error'')) \<longrightarrow>
      errorArgument result = Inr ''Trio API call failed'' \<and>
      errorShown (handleDetect_settled (FetchResolves False (JsonResolves result)) s)) \<and>
   (result \<noteq> JNull \<and> optionalMessage (member result ''error'') = Some v \<and>
    ToBoolean (Some v) \<longrightarrow>
      errorArgument result = ToString v) \<and>
   (errorArgument JNull = Inl (Error (nullReadMessage ''error'')) \<and>
    errorShown (handleDetect_settled (FetchResolves False (JsonResolves JNull)) s)) \<and>
   (catchMessage (Error m) = m \<and>
    catchMessage NotAnError = ''Detection request failed, please try again'') \<and>
   (errorShown (handleDetect_settled (FetchRejects NotAnError) s) \<and>
    errorShown (handleDetect_settled (FetchResolves ok (JsonRejects NotAnError)) s)) \<and>
   (m \<noteq> [] \<longrightarrow>
      errorShown (handleDetect_settled (FetchRejects (Error m)) s) \<and>
      errorShown (handleDetect_settled (FetchResolves ok (JsonRejects (Error m))) s))"
proof -
  have nn: "\<And>w p x. member w p = Some x \<Longrightarrow> w \<noteq> JNull"
  proof -
    fix w p x show "member w p = Some x \<Longrightarrow> w \<noteq> JNull" by (cases w) simp_all
  qed
  have tip: "\<And>r. errorTip (handleDetect_settled (FetchResolves False (JsonResolves r)) s)
      = (case errorArgument r of Inl ex \<Rightarrow> catchMessage ex | Inr t \<Rightarrow> t)"
    by (simp add: handleDetect_settled_def tryBlock_def catchMessage_def split: sum.splits)
  have keep: "detectResult (handleDetect_settled (FetchResolves False (JsonResolves result)) s)
      = detectResult s"
    by (simp add: handleDetect_settled_def tryBlock_def split: sum.splits)
  have str: "member result ''error'' = Some err \<and> member err ''message'' = Some (JStr m) \<and> m \<noteq> []
      \<longrightarrow> errorArgument result = Inr m"
    by (auto simp: errorArgument_def getProperty_def optionalMessage_def dest: nn)
  have falsy: "result \<noteq> JNull \<and> \<not> ToBoolean (optionalMessage (member result ''error''))
      \<longrightarrow> errorArgument result = Inr ''Trio API call failed''"
    by (simp add: errorArgument_def getProperty_def split: option.splits)
  have truthyv: "result \<noteq> JNull \<and> optionalMessage (member result ''error'') = Some v \<and>
      ToBoolean (Some v) \<longrightarrow> errorArgument result = ToString v"
    by (simp add: errorArgument_def getProperty_def)
  have null: "errorArgument JNull = Inl (Error (nullReadMessage ''error''))"
    by (simp add: errorArgument_def getProperty_def)
  have rej: "\<And>x. errorTip (handleDetect_settled (FetchRejects x) s) = catchMessage x"
    "\<And>x. errorTip (handleDetect_settled (FetchResolves ok (JsonRejects x)) s) = catchMessage x"
    "detectResult (handleDetect_settled (FetchRejects e) s) = detectResult s"
    "detectResult (handleDetect_settled (FetchResolves ok (JsonRejects e)) s) = detectResult s"
    by (simp_all add: handleDetect_settled_def tryBlock_def)
  have cm: "catchMessage (Error m) = m"
    "catchMessage NotAnError = ''Detection request failed, please try again''"
    by (simp_all add: catchMessage_def)
  have shown1: "member result ''error'' = Some err \<and> member err ''message'' = Some (JStr m) \<and>
      m \<noteq> [] \<longrightarrow>
      errorShown (handleDetect_settled (FetchResolves False (JsonResolves result)) s)"
    using str by (auto simp: errorShown_def tip)
  have shown2: "result \<noteq> JNull \<and> \<not> ToBoolean (optionalMessage (member result ''error'')) \<longrightarrow>
      errorShown (handleDetect_settled (FetchResolves False (JsonResolves result)) s)"
    using falsy by (auto simp: errorShown_def tip)
  have shown3: "errorShown (handleDetect_settled (FetchResolves False (JsonResolves JNull)) s)"
    by (simp add: errorShown_def tip null catchMessage_def nullReadMessage_def)
  have shown4: "errorShown (handleDetect_settled (FetchRejects NotAnError) s)"
    "errorShown (handleDetect_settled (FetchResolves ok (JsonRejects NotAnError)) s)"
    by (simp_all add: errorShown_def rej cm)
  have shown5: "m \<noteq> [] \<longrightarrow>
      errorShown (handleDetect_settled (FetchRejects (Error m)) s) \<and>
      errorShown (handleDetect_settled (FetchResolves ok (JsonRejects (Error m))) s)"
    by (simp add: errorShown_def rej cm)
  from tip [of result] keep str falsy truthyv null rej cm shown1 shown2 shown3 shown4 shown5
  show ?thesis by blast
qed

theorem handleDetect_failure_keeps_result_witness:
  "detectResult storedState = quietResult \<and>
   member quotaBody ''error'' = Some (JObj [(''message'', JStr ''quota exceeded'')]) \<and>
   detectResult (handleDetect_settled (FetchResolves False (JsonResolves quotaBody)) storedState)
     = quietResult \<and>
   errorTip (handleDetect_settled (FetchResolves False (JsonResolves quotaBody)) storedState)
     = ''quota exceeded'' \<and>
   errorShown (handleDetect_settled (FetchResolves False (JsonResolves quotaBody)) storedState) \<and>
   errorTip (handleDetect_settled (FetchResolves False (JsonResolves (JObj []))) storedState)
     = ''Trio API call failed'' \<and>
   errorShown (handleDetect_settled (FetchResolves False (JsonResolves (JObj []))) storedState) \<and>
   errorTip (handleDetect_settled (FetchRejects (Error ''Failed to fetch'')) storedState)
     = ''Failed to fetch'' \<and>
   errorShown (handleDetect_settled (FetchRejects (Error ''Failed to fetch'')) storedState) \<and>
   detectResult (handleDetect_settled (FetchRejects (Error ''Failed to fetch'')) storedState)
     = quietResult"
proof -
  have a: "member quotaBody ''error'' = Some (JObj [(''message'', JStr ''quota exceeded'')])"
    by (simp add: quotaBody_def)
  have b: "member (JObj [(''message'', JStr ''quota exceeded'')]) ''message''
      = Some (JStr ''quota exceeded'')"
    by simp
  have c: "JObj [] \<noteq> JNull \<and> \<not> ToBoolean (optionalMessage (member (JObj []) ''error''))"
    by (simp add: optionalMessage_def)
  have d: "detectResult storedState = quietResult"
    by (simp add: storedState_def loadedState_def)
  note t1 = handleDetect_failure_keeps_result
          [of "Error ''Failed to fetch''" storedState True quotaBody
              "JObj [(''message'', JStr ''quota exceeded'')]" "''quota exceeded''" JNull]
  note t2 = handleDetect_failure_keeps_result
          [of "Error ''Failed to fetch''" storedState True "JObj []" JNull "''Failed to fetch''"
              JNull]
  from t1 a b have q: "errorArgument quotaBody = Inr ''quota exceeded''"
    and qs: "errorShown (handleDetect_settled (FetchResolves False (JsonResolves quotaBody))
      storedState)"
    by simp_all
  from t2 c have f: "errorArgument (JObj []) = Inr ''Trio API call failed''"
    and fs: "errorShown (handleDetect_settled (FetchResolves False (JsonResolves (JObj [])))
      storedState)"
    by simp_all
  from t2 have r: "errorShown (handleDetect_settled (FetchRejects (Error ''Failed to fetch''))
      storedState)"
    by simp
  from t1 t2 a d q qs f fs r show ?thesis by simp
qed

theorem handleDetect_null_body_counterexample:
  "detectResult storedState = quietResult \<and>
   errorTip (handleDetect_settled (FetchResolves True (JsonResolves JNull)) storedState)
     = nullReadMessage ''triggered'' \<and>
   detectResult (handleDetect_settled (FetchResolves True (JsonResolves JNull)) storedState)
     = JNull \<and>
   detectResult (handleDetect_settled (FetchResolves True (JsonResolves JNull)) storedState)
     \<noteq> detectResult storedState \<and>
   errorTip (handleDetect_settled (FetchResolves False (JsonResolves emptyMessageBody))
     storedState) = [] \<and>
   \<not> errorShown (handleDetect_settled (FetchResolves False (JsonResolves emptyMessageBody))
     storedState)"
  by (simp add: handleDetect_settled_def tryBlock_def getProperty_def catchMessage_def
      storedState_def loadedState_def quietResult_def emptyMessageBody_def errorArgument_def
      optionalMessage_def errorShown_def)

subsection \<open>Simulated alert and reset\<close>

text \<open>
  Claim C7. From every state \<open>triggerMockAlert\<close> sets the status to alert and the counter
  to 1, and \<open>resetStatus\<close> sets the status to running, the counter to 0 and the stored
  detection result to null; neither click issues a request. So a simulated alert followed
  by a reset ends with status running, counter 0 and no stored detection result.
\<close>

theorem simulate_then_reset:
  "aiStatus (triggerMockAlert s) = Alert \<and> activeAlerts (triggerMockAlert s) = 1 \<and>
   step cfg c SimulateClicked = (c\<lparr>cells := triggerMockAlert (cells c)\<rparr>, []) \<and>
   aiStatus (resetStatus s) = Running \<and> activeAlerts (resetStatus s) = 0 \<and>
   detectResult (resetStatus s) = JNull \<and>
   step cfg c ResetClicked = (c\<lparr>cells := resetStatus (cells c)\<rparr>, []) \<and>
   aiStatus (resetStatus (triggerMockAlert s)) = Running \<and>
   activeAlerts (resetStatus (triggerMockAlert s)) = 0 \<and>
   detectResult (resetStatus (triggerMockAlert s)) = JNull"
  by (simp add: triggerMockAlert_def resetStatus_def step_def rerender_def watched_def)

theorem simulate_then_reset_witness:
  "aiStatus (resetStatus (triggerMockAlert loadedState)) = Running \<and>
   activeAlerts (triggerMockAlert loadedState) = 1 \<and>
   aiStatus (triggerMockAlert loadedState) = Alert \<and>
   activeAlerts (resetStatus (triggerMockAlert loadedState)) = 0 \<and>
   detectResult (resetStatus (triggerMockAlert loadedState)) = JNull \<and>
   snd (step exampleConfig (mounted exampleConfig) SimulateClicked) = [] \<and>
   snd (step exampleConfig (mounted exampleConfig) ResetClicked) = []"
  using simulate_then_reset [of loadedState exampleConfig "mounted exampleConfig"]
  by simp

subsection \<open>The polling timer\<close>

text \<open>
  Claim C8, as amended. In every state the component reaches, at most one interval
  timer is live. When a render changes \<open>videoId\<close> or \<open>youtubeUrl\<close>, the cleanup of the
  previous effect runs first and leaves no live timer; then, if the new cells have a
  video id and a URL input that is not blank, and endpoint and credential are
  configured, \<open>handleDetect\<close> is called at once and one new timer with a delay of
  60000 ms is live; otherwise no timer is live, no request is issued and the cells stay
  as they are. The call of \<open>handleDetect\<close> issues its request to the endpoint when the
  trimmed URL input yields a video id, and sets the load-a-video message when it does
  not.

  As stated, with a state counted as valid when a Stream Reference exists and the
  configuration is present, the claim fails: after a video is loaded, clearing the URL
  input leaves the Stream Reference and the configuration in place, and the effect
  cancels the timer, calls nothing and starts no timer.
\<close>

theorem polling_restart_single_timer:
  assumes "c = run cfg (mounted cfg) evs" and "watched s \<noteq> watched (cells c)"
  shows "length (intervals c) \<le> 1 \<and>
         rerender cfg (cells c) (c\<lparr>cells := s\<rparr>) = effectBody cfg (effectCleanup (c\<lparr>cells := s\<rparr>)) \<and>
         intervals (effectCleanup (c\<lparr>cells := s\<rparr>)) = [] \<and>
         (pollingValid cfg s \<longrightarrow>
            intervals (fst (rerender cfg (cells c) (c\<lparr>cells := s\<rparr>))) = [(nextTimer c, 60 * 1000)] \<and>
            pollTimerRef (fst (rerender cfg (cells c) (c\<lparr>cells := s\<rparr>))) = Some (nextTimer c) \<and>
            cells (fst (rerender cfg (cells c) (c\<lparr>cells := s\<rparr>))) = fst (handleDetect cfg s) \<and>
            snd (rerender cfg (cells c) (c\<lparr>cells := s\<rparr>)) =
              (case snd (handleDetect cfg s) of None \<Rightarrow> [] | Some r \<Rightarrow> [r])) \<and>
         (pollingValid cfg s \<and> getYoutubeVideoId (trim (youtubeUrl s)) \<noteq> None \<longrightarrow>
            cells (fst (rerender cfg (cells c) (c\<lparr>cells := s\<rparr>))) =
              s\<lparr>detectLoading := True, errorTip := []\<rparr> \<and>
            snd (rerender cfg (cells c) (c\<lparr>cells := s\<rparr>)) =
              [\<lparr> url = TRIO_API_URL cfg, httpMethod = ''POST'',
                 authorization = ''Bearer '' @ TRIO_API_KEY cfg,
                 contentType = ''application/json'',
                 stream_url = trim (youtubeUrl s), condition = DETECT_PROMPT cfg \<rparr>]) \<and>
         (pollingValid cfg s \<and> getYoutubeVideoId (trim (youtubeUrl s)) = None \<longrightarrow>
            cells (fst (rerender cfg (cells c) (c\<lparr>cells := s\<rparr>))) =
              s\<lparr>errorTip := ''Please load a valid YouTube video before running detection''\<rparr> \<and>
            snd (rerender cfg (cells c) (c\<lparr>cells := s\<rparr>)) = []) \<and>
         (\<not> pollingValid cfg s \<longrightarrow>
            intervals (fst (rerender cfg (cells c) (c\<lparr>cells := s\<rparr>))) = [] \<and>
            cells (fst (rerender cfg (cells c) (c\<lparr>cells := s\<rparr>))) = s \<and>
            snd (rerender cfg (cells c) (c\<lparr>cells := s\<rparr>)) = [])"
proof -
  let ?c1 = "effectCleanup (c\<lparr>cells := s\<rparr>)"
  let ?R = "rerender cfg (cells c) (c\<lparr>cells := s\<rparr>)"
  have one: "oneTimer c" unfolding assms(1) by (rule oneTimer_run)
  then have len: "length (intervals c) \<le> 1" by (simp add: oneTimer_def)
  have re: "?R = effectBody cfg ?c1"
    using assms(2) by (simp add: rerender_def)
  have empty: "intervals ?c1 = []"
    using one by (simp add: effectCleanup_clears oneTimer_cells)
  have cs: "cells ?c1 = s" by (simp add: cells_effectCleanup)
  have nt: "nextTimer ?c1 = nextTimer c"
    by (simp add: effectCleanup_def clearInterval_def split: option.splits)
  have valid: "pollingValid cfg s \<longrightarrow>
      intervals (fst ?R) = [(nextTimer c, 60 * 1000)] \<and>
      pollTimerRef (fst ?R) = Some (nextTimer c) \<and>
      cells (fst ?R) = fst (handleDetect cfg s) \<and>
      snd ?R = (case snd (handleDetect cfg s) of None \<Rightarrow> [] | Some r \<Rightarrow> [r])"
    unfolding re using effectBody_valid [of cfg ?c1] empty cs nt by simp
  have issued: "pollingValid cfg s \<and> getYoutubeVideoId (trim (youtubeUrl s)) \<noteq> None \<longrightarrow>
      cells (fst ?R) = s\<lparr>detectLoading := True, errorTip := []\<rparr> \<and>
      snd ?R =
        [\<lparr> url = TRIO_API_URL cfg, httpMethod = ''POST'',
           authorization = ''Bearer '' @ TRIO_API_KEY cfg,
           contentType = ''application/json'',
           stream_url = trim (youtubeUrl s), condition = DETECT_PROMPT cfg \<rparr>]"
  proof
    assume h: "pollingValid cfg s \<and> getYoutubeVideoId (trim (youtubeUrl s)) \<noteq> None"
    then have "TRIO_API_URL cfg \<noteq> []" and "TRIO_API_KEY cfg \<noteq> []"
      by (simp_all add: pollingValid_def)
    with h have "handleDetect cfg s =
       (s\<lparr>detectLoading := True, errorTip := []\<rparr>,
        Some \<lparr> url = TRIO_API_URL cfg, httpMethod = ''POST'',
               authorization = ''Bearer '' @ TRIO_API_KEY cfg,
               contentType = ''application/json'',
               stream_url = trim (youtubeUrl s), condition = DETECT_PROMPT cfg \<rparr>)"
      by (simp add: handleDetect_issues)
    with valid h show "cells (fst ?R) = s\<lparr>detectLoading := True, errorTip := []\<rparr> \<and>
      snd ?R =
        [\<lparr> url = TRIO_API_URL cfg, httpMethod = ''POST'',
           authorization = ''Bearer '' @ TRIO_API_KEY cfg,
           contentType = ''application/json'',
           stream_url = trim (youtubeUrl s), condition = DETECT_PROMPT cfg \<rparr>]"
      by simp
  qed
  have refused: "pollingValid cfg s \<and> getYoutubeVideoId (trim (youtubeUrl s)) = None \<longrightarrow>
      cells (fst ?R) =
        s\<lparr>errorTip := ''Please load a valid YouTube video before running detection''\<rparr> \<and>
      snd ?R = []"
  proof
    assume h: "pollingValid cfg s \<and> getYoutubeVideoId (trim (youtubeUrl s)) = None"
    then have "getYoutubeVideoId (trim (youtubeUrl s)) = None \<or>
        TRIO_API_URL cfg = [] \<or> TRIO_API_KEY cfg = []"
      by simp
    note g = handleDetect_guarded [OF this]
    from g have n: "snd (handleDetect cfg s) = None" by (rule conjunct1)
    from g h have e: "errorTip (fst (handleDetect cfg s)) =
        ''Please load a valid YouTube video before running detection''"
      by simp
    from g have f: "fst (handleDetect cfg s) = s\<lparr>errorTip := errorTip (fst (handleDetect cfg s))\<rparr>"
      by (rule conjunct2 [THEN conjunct2, THEN conjunct2])
    note f [unfolded e] n
    with valid h show "cells (fst ?R) =
        s\<lparr>errorTip := ''Please load a valid YouTube video before running detection''\<rparr> \<and>
      snd ?R = []"
      by simp
  qed
  have invalid: "\<not> pollingValid cfg s \<longrightarrow>
      intervals (fst ?R) = [] \<and> cells (fst ?R) = s \<and> snd ?R = []"
    unfolding re
    using effectBody_invalid_timers [of cfg ?c1] effectBody_invalid [of cfg ?c1] empty cs by simp
  from len re empty valid issued refused invalid show ?thesis by blast
qed

theorem polling_restart_single_timer_witness:
  "afterLoad = run exampleConfig (mounted exampleConfig) typedAfterLoad \<and>
   intervals afterLoad = [(1, 60000)] \<and>
   watched retyped \<noteq> watched (cells afterLoad) \<and>
   pollingValid exampleConfig retyped \<and>
   intervals (effectCleanup (afterLoad\<lparr>cells := retyped\<rparr>)) = [] \<and>
   intervals (fst (rerender exampleConfig (cells afterLoad) (afterLoad\<lparr>cells := retyped\<rparr>)))
     = [(2, 60000)] \<and>
   pollTimerRef (fst (rerender exampleConfig (cells afterLoad) (afterLoad\<lparr>cells := retyped\<rparr>)))
     = Some 2 \<and>
   snd (rerender exampleConfig (cells afterLoad) (afterLoad\<lparr>cells := retyped\<rparr>))
     = [\<lparr> url = ''https://trio.example/api/check'', httpMethod = ''POST'',
          authorization = ''Bearer key'', contentType = ''application/json'',
          stream_url = ''https://youtu.be/XsOU8JnEpNM'',
          condition = ''Is there an animated character visible?'' \<rparr>]"
proof -
  have a: "watched retyped \<noteq> watched (cells afterLoad)"
    by (simp add: retyped_def watched_def afterLoad_eq url_neq)
  have u: "youtubeUrl retyped = shortUrl" by (simp add: retyped_def)
  have b: "pollingValid exampleConfig retyped"
    by (simp add: retyped_def pollingValid_def truthy_def afterLoad_eq shortUrl_trim
        exampleConfig_def)
  have i: "getYoutubeVideoId (trim (youtubeUrl retyped)) \<noteq> None"
    by (simp add: u shortUrl_id)
  have c: "nextTimer afterLoad = 2" by (simp add: afterLoad_eq)
  have d: "intervals afterLoad = [(1, 60000)]" by (simp add: afterLoad_eq)
  note th = polling_restart_single_timer [OF afterLoad_def a]
  from th b i
  have x: "intervals (fst (rerender exampleConfig (cells afterLoad) (afterLoad\<lparr>cells := retyped\<rparr>)))
      = [(nextTimer afterLoad, 60 * 1000)]"
    and y: "pollTimerRef (fst (rerender exampleConfig (cells afterLoad) (afterLoad\<lparr>cells := retyped\<rparr>)))
      = Some (nextTimer afterLoad)"
    and z: "intervals (effectCleanup (afterLoad\<lparr>cells := retyped\<rparr>)) = []"
    and r: "snd (rerender exampleConfig (cells afterLoad) (afterLoad\<lparr>cells := retyped\<rparr>)) =
      [\<lparr> url = TRIO_API_URL exampleConfig, httpMethod = ''POST'',
         authorization = ''Bearer '' @ TRIO_API_KEY exampleConfig,
         contentType = ''application/json'',
         stream_url = trim (youtubeUrl retyped), condition = DETECT_PROMPT exampleConfig \<rparr>]"
    by blast+
  from r have r': "snd (rerender exampleConfig (cells afterLoad) (afterLoad\<lparr>cells := retyped\<rparr>))
     = [\<lparr> url = ''https://trio.example/api/check'', httpMethod = ''POST'',
          authorization = ''Bearer key'', contentType = ''application/json'',
          stream_url = ''https://youtu.be/XsOU8JnEpNM'',
          condition = ''Is there an animated character visible?'' \<rparr>]"
    by (simp add: u shortUrl_trim exampleConfig_def)
  from x y z a b d r' show ?thesis unfolding c by (simp add: afterLoad_def [symmetric])
qed

theorem polling_blank_input_counterexample:
  "truthy (videoId blanked) \<and> TRIO_API_URL exampleConfig \<noteq> [] \<and>
   TRIO_API_KEY exampleConfig \<noteq> [] \<and>
   youtubeUrl blanked = [] \<and>
   intervals afterLoad = [(1, 60000)] \<and>
   cells (fst (step exampleConfig afterLoad (Typed []))) = blanked \<and>
   intervals (fst (step exampleConfig afterLoad (Typed []))) = [] \<and>
   snd (step exampleConfig afterLoad (Typed [])) = []"
  by (simp add: blanked_def afterLoad_eq truthy_def exampleConfig_def step_def rerender_def
      watched_def url_neq effectCleanup_def clearInterval_def effectBody_def pollingValid_def
      trim_def)

subsection \<open>Reachable values of the counter and of the status\<close>

text \<open>
  Claim C9. The alert counter starts at 0 and is never negative, whatever sequence of
  events the component goes through. \<open>loadVideo\<close> and the part of \<open>handleDetect\<close> before
  the request leave it alone, a settled detection leaves it alone or adds one,
  \<open>triggerMockAlert\<close> sets it to 1 and \<open>resetStatus\<close> to 0; so each of them keeps a
  counter that is not negative that way.
\<close>

theorem activeAlerts_nonnegative:
  "activeAlerts initialState = 0 \<and>
   0 \<le> activeAlerts (cells (run cfg (mounted cfg) evs)) \<and>
   activeAlerts (loadVideo s) = activeAlerts s \<and>
   activeAlerts (fst (handleDetect cfg s)) = activeAlerts s \<and>
   (activeAlerts (handleDetect_settled out s) = activeAlerts s \<or>
    activeAlerts (handleDetect_settled out s) = activeAlerts s + 1) \<and>
   activeAlerts (triggerMockAlert s) = 1 \<and>
   activeAlerts (resetStatus s) = 0 \<and>
   (0 \<le> activeAlerts s \<longrightarrow>
      0 \<le> activeAlerts (loadVideo s) \<and> 0 \<le> activeAlerts (fst (handleDetect cfg s)) \<and>
      0 \<le> activeAlerts (handleDetect_settled out s) \<and>
      0 \<le> activeAlerts (triggerMockAlert s) \<and> 0 \<le> activeAlerts (resetStatus s))"
proof -
  have r: "0 \<le> activeAlerts (cells (run cfg (mounted cfg) evs))"
    using calm_run [of cfg evs] by (simp add: calm_def)
  have l: "activeAlerts (loadVideo s) = activeAlerts s" by (simp add: loadVideo_def Let_def)
  have h: "activeAlerts (fst (handleDetect cfg s)) = activeAlerts s"
    by (simp add: handleDetect_frame)
  note d = settled_alerts [of out s]
  from d have "0 \<le> activeAlerts s \<longrightarrow> 0 \<le> activeAlerts (handleDetect_settled out s)" by auto
  with r l h d show ?thesis
    by (simp add: initialState_def triggerMockAlert_def resetStatus_def)
qed

theorem activeAlerts_nonnegative_witness:
  "activeAlerts (cells (run exampleConfig (mounted exampleConfig) alertTrace)) = 1 \<and>
   0 \<le> activeAlerts (cells (run exampleConfig (mounted exampleConfig) alertTrace)) \<and>
   0 \<le> activeAlerts initialState \<and>
   0 \<le> activeAlerts (handleDetect_settled (FetchResolves True (JsonResolves triggeredResult)) initialState) \<and>
   0 \<le> activeAlerts (resetStatus initialState)"
proof -
  have b: "0 \<le> activeAlerts initialState" by (simp add: initialState_def)
  from alertTrace_cells b activeAlerts_nonnegative
    [of exampleConfig alertTrace initialState "FetchResolves True (JsonResolves triggeredResult)"]
  show ?thesis by simp
qed

text \<open>
  Claim C10. The status starts as running, and after every sequence of events it is
  running or alert: no callback ever stores \<open>Warning\<close>.
\<close>

theorem warning_unreachable:
  "aiStatus initialState = Running \<and>
   (aiStatus (cells (run cfg (mounted cfg) evs)) = Running \<or>
    aiStatus (cells (run cfg (mounted cfg) evs)) = Alert)"
proof -
  have "aiStatus (cells (run cfg (mounted cfg) evs)) \<noteq> Warning"
    using calm_run [of cfg evs] by (simp add: calm_def)
  then have "aiStatus (cells (run cfg (mounted cfg) evs)) = Running \<or>
    aiStatus (cells (run cfg (mounted cfg) evs)) = Alert"
    by (cases "aiStatus (cells (run cfg (mounted cfg) evs))") simp_all
  then show ?thesis by (simp add: initialState_def)
qed

theorem warning_unreachable_witness:
  "aiStatus (cells (run exampleConfig (mounted exampleConfig) alertTrace)) = Alert \<and>
   aiStatus (cells (run exampleConfig (mounted exampleConfig) alertTrace)) \<noteq> Warning"
  using alertTrace_cells warning_unreachable [of exampleConfig alertTrace] by simp

end
